theory Spec2Isabelle
  imports Main
begin

section \<open>Values of the program\<close>

text \<open>
  The server is JavaScript on Node. Strings are \<open>string\<close>; a status code is an \<open>int\<close>.
  A header value is a string or the JavaScript value \<open>false\<close> (what the MIME collaborator
  returns for an extension it does not know). A headers object is an association list in
  the order of its keys.
\<close>

datatype header_value = HStr string | HFalse

type_synonym headers = "(string \<times> header_value) list"

record request =
  url :: string

text \<open>
  An \<open>Error\<close> object: its \<open>code\<close> property (Node sets it on a failed system call, for
  example \<open>EACCES\<close>; it is undefined, here \<open>None\<close>, otherwise) and its message.
  \<open>class HttpError extends Error\<close> adds \<open>statusCode\<close> and \<open>statusMessage\<close>; the latter
  is undefined (\<open>None\<close>) when the table has no phrase for the code.
\<close>

record js_error =
  code :: "string option"
  message :: string

record http_error = js_error +
  statusCode :: int
  statusMessage :: "string option"

text \<open>A thrown value: \<open>error instanceof HttpError\<close> holds exactly for \<open>HttpErr\<close>.\<close>

datatype thrown = HttpErr http_error | OtherErr js_error

section \<open>HttpError\<close>

text \<open>
  Modelled from the spec: the status-code-to-phrase table is Node's \<open>http.STATUS_CODES\<close>,
  imported as \<open>statusCodes\<close>; it is not part of the repository. The spec calls it the standard
  table and names the phrases of 404 and 500.
\<close>

definition STATUS_CODES :: "(int \<times> string) list" where
  "STATUS_CODES =
    [(100, ''Continue''), (101, ''Switching Protocols''), (102, ''Processing''),
     (103, ''Early Hints''),
     (200, ''OK''), (201, ''Created''), (202, ''Accepted''),
     (203, ''Non-Authoritative Information''), (204, ''No Content''),
     (205, ''Reset Content''), (206, ''Partial Content''), (207, ''Multi-Status''),
     (208, ''Already Reported''), (226, ''IM Used''),
     (300, ''Multiple Choices''), (301, ''Moved Permanently''), (302, ''Found''),
     (303, ''See Other''), (304, ''Not Modified''), (305, ''Use Proxy''),
     (307, ''Temporary Redirect''), (308, ''Permanent Redirect''),
     (400, ''Bad Request''), (401, ''Unauthorized''), (402, ''Payment Required''),
     (403, ''Forbidden''), (404, ''Not Found''), (405, ''Method Not Allowed''),
     (406, ''Not Acceptable''), (407, ''Proxy Authentication Required''),
     (408, ''Request Timeout''), (409, ''Conflict''), (410, ''Gone''),
     (411, ''Length Required''), (412, ''Precondition Failed''),
     (413, ''Payload Too Large''), (414, ''URI Too Long''),
     (415, ''Unsupported Media Type''), (416, ''Range Not Satisfiable''),
     (417, ''Expectation Failed''), (418, ''I'm a Teapot''),
     (421, ''Misdirected Request''), (422, ''Unprocessable Entity''), (423, ''Locked''),
     (424, ''Failed Dependency''), (425, ''Too Early''), (426, ''Upgrade Required''),
     (428, ''Precondition Required''), (429, ''Too Many Requests''),
     (431, ''Request Header Fields Too Large''),
     (451, ''Unavailable For Legal Reasons''),
     (500, ''Internal Server Error''), (501, ''Not Implemented''), (502, ''Bad Gateway''),
     (503, ''Service Unavailable''), (504, ''Gateway Timeout''),
     (505, ''HTTP Version Not Supported''), (506, ''Variant Also Negotiates''),
     (507, ''Insufficient Storage''), (508, ''Loop Detected''),
     (509, ''Bandwidth Limit Exceeded''), (510, ''Not Extended''),
     (511, ''Network Authentication Required'')]"

definition statusCodes :: "int \<Rightarrow> string option" where
  "statusCodes c = map_of STATUS_CODES c"

text \<open>The decimal text of a number, as a template literal prints it.\<close>

fun show_nat :: "nat \<Rightarrow> string" where
  "show_nat n =
     (if n < 10 then [''0123456789'' ! n]
      else show_nat (n div 10) @ [''0123456789'' ! (n mod 10)])"

definition show_int :: "int \<Rightarrow> string" where
  "show_int i = (if i < 0 then CHR ''-'' # show_nat (nat (- i)) else show_nat (nat i))"

text \<open>
  \<open>new HttpError(code = 400, ...args)\<close>. The argument is \<open>None\<close> when the caller passes no
  code. The result is \<open>Inl\<close> of the plain \<open>Error\<close> the constructor throws, or \<open>Inr\<close> of the
  object built. \<open>super(...args)\<close> takes the first of \<open>args\<close> as the message.
  A code is an integer here; a JavaScript number that is none (\<open>NaN\<close>, a fraction) is
  outside the model.
\<close>

definition HttpError :: "int option \<Rightarrow> string list \<Rightarrow> js_error + http_error" where
  "HttpError code_arg args =
     (let c = (case code_arg of None \<Rightarrow> 400 | Some k \<Rightarrow> k);
          phrase = statusCodes c
      in if c < 400 \<or> c > 599
         then Inl \<lparr>code = None,
                   message = ''HTTP status code '' @ show_int c @ '': '' @
                     (case phrase of None \<Rightarrow> ''undefined'' | Some m \<Rightarrow> m) @
                     '' is not an error''\<rparr>
         else Inr \<lparr>code = None,
                   message = (case args of [] \<Rightarrow> [] | m # _ \<Rightarrow> m),
                   statusCode = c, statusMessage = phrase\<rparr>)"

text \<open>The value that \<open>throw new HttpError(code)\<close> raises.\<close>

definition throw_new_HttpError :: "int \<Rightarrow> thrown" where
  "throw_new_HttpError c =
     (case HttpError (Some c) [] of Inl e \<Rightarrow> OtherErr e | Inr h \<Rightarrow> HttpErr h)"

section \<open>Paths\<close>

definition startsWith :: "string \<Rightarrow> string \<Rightarrow> bool" where
  "startsWith s t = (take (length t) s = t)"

definition endsWith :: "string \<Rightarrow> string \<Rightarrow> bool" where
  "endsWith s t = (length t \<le> length s \<and> drop (length s - length t) s = t)"

text \<open>The segments of a path between its separators, empty ones included.\<close>

fun split_path :: "string \<Rightarrow> string list" where
  "split_path [] = [[]]"
| "split_path (c # cs) =
     (if c = CHR ''/'' then [] # split_path cs
      else (case split_path cs of [] \<Rightarrow> [[c]] | s # ss \<Rightarrow> (c # s) # ss))"

fun join_path :: "string list \<Rightarrow> string" where
  "join_path [] = []"
| "join_path [s] = s"
| "join_path (s # t # ss) = s @ CHR ''/'' # join_path (t # ss)"

text \<open>
  Modelled from the spec: \<open>resolve\<close> and \<open>parse\<close> are Node's \<open>path\<close> module (POSIX), not part
  of the repository. The spec asks of the join that it canonicalizes the path, resolving
  \<open>.\<close> and \<open>..\<close> segments, and of the split that it gives base name and extension.

  \<open>normalizeString\<close> is Node's normalization of an absolute path, segment by segment: an
  empty segment and \<open>.\<close> are dropped, \<open>..\<close> removes the last segment kept so far (none at the
  root), any other segment is kept.
\<close>

fun normalizeString :: "string list \<Rightarrow> string list \<Rightarrow> string list" where
  "normalizeString res [] = res"
| "normalizeString res (s # ss) =
     (if s = [] \<or> s = ''.'' then normalizeString res ss
      else if s = ''..'' then normalizeString (butlast res) ss
      else normalizeString (res @ [s]) ss)"

text \<open>
  \<open>resolve(path)\<close> with one argument: an absolute path is normalized, any other is taken
  from the working directory \<open>cwd\<close> (absolute, as \<open>process.cwd()\<close> is).
\<close>

definition resolvedPath :: "string \<Rightarrow> string \<Rightarrow> string" where
  "resolvedPath cwd path =
     (if path = [] then cwd @ ''/''
      else if hd path = CHR ''/'' then path @ ''/''
      else cwd @ ''/'' @ path @ ''/'')"

definition resolve :: "string \<Rightarrow> string \<Rightarrow> string" where
  "resolve cwd path =
     CHR ''/'' # join_path (normalizeString [] (split_path (resolvedPath cwd path)))"

text \<open>
  \<open>parse(path)\<close>: the base is what follows the last separator, trailing separators apart.
  The extension starts at the last dot of the base, unless there is no dot, the dot is the
  first character, or the base is \<open>..\<close>; the name is the base without the extension.
\<close>

record parsed_path =
  base :: string
  ext :: string
  name :: string

definition basename :: "string \<Rightarrow> string" where
  "basename path =
     rev (takeWhile (\<lambda>c. c \<noteq> CHR ''/'') (dropWhile (\<lambda>c. c = CHR ''/'') (rev path)))"

definition parse :: "string \<Rightarrow> parsed_path" where
  "parse path =
     (let b = basename path;
          startDot = length b - Suc (length (takeWhile (\<lambda>c. c \<noteq> CHR ''.'') (rev b)))
      in if CHR ''.'' \<in> set b \<and> startDot \<noteq> 0 \<and> b \<noteq> ''..''
         then \<lparr>base = b, ext = drop startDot b, name = take startDot b\<rparr>
         else \<lparr>base = b, ext = [], name = b\<rparr>)"

text \<open>
  \<open>urlToPath(directory = '.', url)\<close>: a best-guess file path for a root-relative URL.
  The directory is \<open>None\<close> when the caller passes none.
\<close>

definition urlToPath :: "string \<Rightarrow> string option \<Rightarrow> string \<Rightarrow> string" where
  "urlToPath cwd directory u =
     resolve cwd ((case directory of None \<Rightarrow> ''.'' | Some d \<Rightarrow> d) @
                  (if endsWith u ''/'' then u @ ''/index.html'' else u))"

section \<open>getStaticFile\<close>

text \<open>
  What the resolver reads from outside: the working directory, the file system as
  \<open>fs.readFile\<close> sees it (the contents, or the error the promise rejects with) and the
  MIME collaborator \<open>mimeTypes.contentType\<close> (\<open>None\<close> is its \<open>false\<close>).
\<close>

record env =
  cwd :: string
  readFile :: "string \<Rightarrow> js_error + string"
  contentType :: "string \<Rightarrow> string option"

record static_file =
  body :: string
  headers :: headers
  statusCode :: int

definition mime_header :: "string option \<Rightarrow> header_value" where
  "mime_header m = (case m of None \<Rightarrow> HFalse | Some s \<Rightarrow> HStr s)"

text \<open>The \<open>try\<close> block of \<open>getStaticFile\<close>.\<close>

definition getStaticFile_try :: "env \<Rightarrow> request \<Rightarrow> string option \<Rightarrow> thrown + static_file" where
  "getStaticFile_try e request directory =
     (let filePath = urlToPath (cwd e) directory (url request);
          p = parse filePath
      in if startsWith (name p) ''.'' then Inl (throw_new_HttpError 403)
         else (case readFile e filePath of
                 Inl err \<Rightarrow> Inl (OtherErr err)
               | Inr contents \<Rightarrow>
                   Inr \<lparr>body = contents,
                        headers = [(''Content-Type'', mime_header (contentType e (ext p)))],
                        statusCode = 200\<rparr>))"

text \<open>Its \<open>catch\<close> clause.\<close>

definition getStaticFile_catch :: "request \<Rightarrow> thrown \<Rightarrow> thrown + static_file" where
  "getStaticFile_catch request error =
     (case error of
        HttpErr h \<Rightarrow> Inl (HttpErr h)
      | OtherErr err \<Rightarrow>
          if code err = Some ''EACCES'' then Inl (throw_new_HttpError 403)
          else if code err = Some ''EISDIR''
            then Inr \<lparr>body = [], headers = [(''Location'', HStr (url request @ ''/''))],
                      statusCode = 302\<rparr>
          else if code err = Some ''ENOENT'' then Inl (throw_new_HttpError 404)
          else Inl (throw_new_HttpError 500))"

definition getStaticFile :: "env \<Rightarrow> request \<Rightarrow> string option \<Rightarrow> thrown + static_file" where
  "getStaticFile e request directory =
     (case getStaticFile_try e request directory of
        Inl error \<Rightarrow> getStaticFile_catch request error
      | Inr file \<Rightarrow> Inr file)"

section \<open>The response object and handlers\<close>

text \<open>
  Modelled from the spec: the response is Node's \<open>http.ServerResponse\<close>, not part of the
  repository. The spec describes a write-once object: the caller sets status code and
  headers, writes a body and finalizes it, and a write of the head fails once the headers
  are sent. A response is \<open>Unsent\<close> (nothing written; it holds the \<open>statusCode\<close> property,
  200 at first), \<open>HeadSent\<close> (status line and headers written, with the body so far) or
  \<open>Ended\<close> (finalized).
\<close>

datatype response =
    Unsent int
  | HeadSent int headers string
  | Ended int headers string

fun writableEnded :: "response \<Rightarrow> bool" where
  "writableEnded (Ended _ _ _) = True"
| "writableEnded _ = False"

fun headersSent :: "response \<Rightarrow> bool" where
  "headersSent (Unsent _) = False"
| "headersSent _ = True"

definition ERR_HTTP_HEADERS_SENT :: js_error where
  "ERR_HTTP_HEADERS_SENT =
     \<lparr>code = Some ''ERR_HTTP_HEADERS_SENT'',
      message = ''Cannot write headers after they are sent to the client''\<rparr>"

definition ERR_HTTP_INVALID_STATUS_CODE :: "int \<Rightarrow> js_error" where
  "ERR_HTTP_INVALID_STATUS_CODE c =
     \<lparr>code = Some ''ERR_HTTP_INVALID_STATUS_CODE'',
      message = ''Invalid status code: '' @ show_int c\<rparr>"

text \<open>
  \<open>response.writeHead(statusCode, headers)\<close> throws when the headers are already sent, and
  on a status code outside 100..999.
\<close>

fun writeHead :: "int \<Rightarrow> headers \<Rightarrow> response \<Rightarrow> js_error + response" where
  "writeHead c hs (Unsent _) =
     (if c < 100 \<or> c > 999 then Inl (ERR_HTTP_INVALID_STATUS_CODE c)
      else Inr (HeadSent c hs []))"
| "writeHead c hs (HeadSent _ _ _) = Inl ERR_HTTP_HEADERS_SENT"
| "writeHead c hs (Ended _ _ _) = Inl ERR_HTTP_HEADERS_SENT"

text \<open>
  \<open>response.end(chunk, 'utf-8')\<close>: the chunk (none when undefined) is the last of the
  body; on an unsent response the head goes out first, with the \<open>statusCode\<close> property
  and no explicit header. The call does not throw; on a finalized response it changes
  nothing.
\<close>

fun response_end :: "string option \<Rightarrow> response \<Rightarrow> response" where
  "response_end chunk (Unsent c) = Ended c [] (case chunk of None \<Rightarrow> [] | Some s \<Rightarrow> s)"
| "response_end chunk (HeadSent c hs b) =
     Ended c hs (b @ (case chunk of None \<Rightarrow> [] | Some s \<Rightarrow> s))"
| "response_end chunk (Ended c hs b) = Ended c hs b"

text \<open>
  A handler is an async function of \<open>(request, response, next)\<close>. What the executor sees of
  a call that settles: the response as the handler leaves it, and either whether \<open>next\<close> was
  called (the promise is fulfilled) or the value thrown (it is rejected). A call that never
  settles leaves the listener waiting at its \<open>await\<close>; such calls are not part of the model.
\<close>

datatype handler_outcome = Returned bool response | Threw thrown response

type_synonym handler = "request \<Rightarrow> response \<Rightarrow> handler_outcome"

section \<open>createStaticHandler\<close>

text \<open>\<open>error.statusCode\<close> of a caught value: undefined (\<open>None\<close>) unless it is an HttpError.\<close>

fun thrown_statusCode :: "thrown \<Rightarrow> int option" where
  "thrown_statusCode (HttpErr h) = Some (http_error.statusCode h)"
| "thrown_statusCode (OtherErr _) = None"

fun thrown_statusMessage :: "thrown \<Rightarrow> string option" where
  "thrown_statusMessage (HttpErr h) = statusMessage h"
| "thrown_statusMessage (OtherErr _) = None"

definition createStaticHandler :: "env \<Rightarrow> string option \<Rightarrow> handler" where
  "createStaticHandler e directory request response =
     (case (case getStaticFile e request directory of
              Inl error \<Rightarrow> Inl error
            | Inr file \<Rightarrow>
                (case writeHead (static_file.statusCode file) (headers file) response of
                   Inl err \<Rightarrow> Inl (OtherErr err)
                 | Inr r \<Rightarrow> Inr (response_end (Some (body file)) r))) of
        Inr r \<Rightarrow> Returned False r
      | Inl error \<Rightarrow>
          if thrown_statusCode error = Some 404 then Returned True response
          else Threw error response)"

section \<open>createRequestListener\<close>

text \<open>
  The \<open>for\<close> loop over the handlers. It ends by running out of handlers or by \<open>break\<close>
  (\<open>Completed\<close>), or by a handler's exception (\<open>Raised\<close>). The first component counts the
  handlers that were invoked.
\<close>

datatype loop_exit = Completed response | Raised thrown response

fun handlers_loop :: "handler list \<Rightarrow> request \<Rightarrow> response \<Rightarrow> nat \<times> loop_exit" where
  "handlers_loop [] request response = (0, Completed response)"
| "handlers_loop (h # hs) request response =
     (case h request response of
        Threw error r \<Rightarrow> (1, Raised error r)
      | Returned next r \<Rightarrow>
          if \<not> next \<or> writableEnded r then (1, Completed r)
          else (case handlers_loop hs request r of (n, x) \<Rightarrow> (Suc n, x)))"

text \<open>
  The outer \<open>try\<close> block: the loop, then success when the response is finalized and
  \<open>throw new HttpError(404)\<close> when it is not. The result is the value thrown, if any, and
  the response.
\<close>

definition listener_try :: "handler list \<Rightarrow> request \<Rightarrow> response \<Rightarrow> nat \<times> thrown option \<times> response" where
  "listener_try handlers request response =
     (case handlers_loop handlers request response of
        (n, Raised error r) \<Rightarrow> (n, Some error, r)
      | (n, Completed r) \<Rightarrow>
          if writableEnded r then (n, None, r)
          else (n, Some (throw_new_HttpError 404), r))"

text \<open>
  The inner \<open>try\<close> of the \<open>catch\<close> clause: an HttpError is thrown again, anything else is
  replaced by \<open>new HttpError(500)\<close>.
\<close>

definition classify :: "thrown \<Rightarrow> thrown" where
  "classify error =
     (case error of HttpErr h \<Rightarrow> HttpErr h | OtherErr _ \<Rightarrow> throw_new_HttpError 500)"

text \<open>
  The inner \<open>catch\<close>: \<open>writeHead(error.statusCode, {'Content-Type': 'text/plain'})\<close> and
  \<open>end(error.statusMessage)\<close>. A value without \<open>statusCode\<close> gives \<open>writeHead\<close> the
  number 0. \<open>Inl\<close> is the exception of \<open>writeHead\<close>, which nothing catches.
\<close>

definition render :: "thrown \<Rightarrow> response \<Rightarrow> js_error + response" where
  "render error response =
     (case writeHead (case thrown_statusCode error of None \<Rightarrow> 0 | Some c \<Rightarrow> c)
             [(''Content-Type'', HStr ''text/plain'')] response of
        Inl err \<Rightarrow> Inl err
      | Inr r \<Rightarrow> Inr (response_end (thrown_statusMessage error) r))"

text \<open>
  One call of the request listener: the response when its promise settles, the exception
  that escaped it (\<open>None\<close> when the promise is fulfilled) and the number of handlers invoked.
\<close>

record listener_result =
  final :: response
  escaped :: "js_error option"
  invoked :: nat

definition createRequestListener :: "handler list \<Rightarrow> request \<Rightarrow> response \<Rightarrow> listener_result" where
  "createRequestListener handlers request response =
     (case listener_try handlers request response of
        (n, None, r) \<Rightarrow> \<lparr>final = r, escaped = None, invoked = n\<rparr>
      | (n, Some error, r) \<Rightarrow>
          (case render (classify error) r of
             Inl err \<Rightarrow> \<lparr>final = r, escaped = Some err, invoked = n\<rparr>
           | Inr r' \<Rightarrow> \<lparr>final = r', escaped = None, invoked = n\<rparr>))"

section \<open>Containment in the served directory\<close>

text \<open>
  The non-empty segments of a path, and whether a resolved path lies in the directory with
  the resolved path \<open>root\<close>: the segments of the root are the first segments of the path.
\<close>

definition path_segments :: "string \<Rightarrow> string list" where
  "path_segments p = filter (\<lambda>s. s \<noteq> []) (split_path p)"

definition inside_directory :: "string \<Rightarrow> string \<Rightarrow> bool" where
  "inside_directory root p =
     (take (length (path_segments root)) (path_segments p) = path_segments root)"

section \<open>Example inputs\<close>

definition EISDIR :: js_error where
  "EISDIR =
     \<lparr>code = Some ''EISDIR'', message = ''EISDIR: illegal operation on a directory, read''\<rparr>"

definition ENOENT :: js_error where
  "ENOENT = \<lparr>code = Some ''ENOENT'', message = ''ENOENT: no such file or directory''\<rparr>"

definition boom :: js_error where
  "boom = \<lparr>code = None, message = ''connection string: db-password''\<rparr>"

text \<open>
  A served directory \<open>/srv/www\<close> with the directories \<open>docs\<close> and \<open>.git\<close>, the files
  \<open>.env\<close>, \<open>notes.zzz\<close>, \<open>.git/config\<close> and \<open>.git/index.html\<close>, and \<open>/etc/passwd\<close> outside
  of it. The MIME collaborator knows \<open>.html\<close> only.
\<close>

definition example_env :: env where
  "example_env =
     \<lparr>cwd = ''/srv'',
      readFile = (\<lambda>p.
        if p = ''/srv/www/.git'' \<or> p = ''/srv/www/docs'' then Inl EISDIR
        else if p = ''/srv/www/.env'' then Inr ''KEY=1''
        else if p = ''/srv/www/notes.zzz'' then Inr ''notes''
        else if p = ''/srv/www/.git/config'' then Inr ''[core]''
        else if p = ''/srv/www/.git/index.html'' then Inr ''<html>''
        else if p = ''/etc/passwd'' then Inr ''root:x:0:0:''
        else Inl ENOENT),
      contentType = (\<lambda>x. if x = ''.html'' then Some ''text/html; charset=utf-8'' else None)\<rparr>"

text \<open>A handler that only calls \<open>next\<close>, and one that does nothing at all.\<close>

definition continue_only :: handler where
  "continue_only request response = Returned True response"

definition idle :: handler where
  "idle request response = Returned False response"

text \<open>
  The custom handler of the README: it answers \<open>/hello-world\<close> and calls \<open>next\<close> in every
  case.
\<close>

definition myCustomHandler :: handler where
  "myCustomHandler request response =
     (if url request = ''/hello-world''
      then (case writeHead 200 [(''Content-Type'', HStr ''text/plain'')] response of
              Inl err \<Rightarrow> Threw (OtherErr err) response
            | Inr r \<Rightarrow> Returned True (response_end (Some ''Hello, world!'') r))
      else Returned True response)"

text \<open>
  Handlers that fail: at once; after writing the head; after finalizing the response.
  And one that writes the head, does not finalize and calls \<open>next\<close>.
\<close>

definition throws :: handler where
  "throws request response = Threw (OtherErr boom) response"

definition head_then_throw :: handler where
  "head_then_throw request response =
     (case writeHead 200 [] response of
        Inl err \<Rightarrow> Threw (OtherErr err) response
      | Inr r \<Rightarrow> Threw (OtherErr boom) r)"

definition end_then_throw :: handler where
  "end_then_throw request response =
     Threw (OtherErr boom) (response_end (Some ''done'') response)"

definition head_then_continue :: handler where
  "head_then_continue request response =
     (case writeHead 200 [] response of
        Inl err \<Rightarrow> Threw (OtherErr err) response
      | Inr r \<Rightarrow> Returned True r)"

section \<open>HttpError construction\<close>

lemma statusCodes_403: "statusCodes 403 = Some ''Forbidden''"
  by (simp add: statusCodes_def STATUS_CODES_def)

lemma statusCodes_404: "statusCodes 404 = Some ''Not Found''"
  by (simp add: statusCodes_def STATUS_CODES_def)

lemma statusCodes_500: "statusCodes 500 = Some ''Internal Server Error''"
  by (simp add: statusCodes_def STATUS_CODES_def)

lemma throw_403:
  "throw_new_HttpError 403 =
     HttpErr \<lparr>code = None, message = [], http_error.statusCode = 403,
              statusMessage = Some ''Forbidden''\<rparr>"
  by (simp add: throw_new_HttpError_def HttpError_def statusCodes_403)

lemma throw_404:
  "throw_new_HttpError 404 =
     HttpErr \<lparr>code = None, message = [], http_error.statusCode = 404,
              statusMessage = Some ''Not Found''\<rparr>"
  by (simp add: throw_new_HttpError_def HttpError_def statusCodes_404)

lemma throw_500:
  "throw_new_HttpError 500 =
     HttpErr \<lparr>code = None, message = [], http_error.statusCode = 500,
              statusMessage = Some ''Internal Server Error''\<rparr>"
  by (simp add: throw_new_HttpError_def HttpError_def statusCodes_500)

text \<open>
  C8. Constructing an HttpError fails for every code below 400 or above 599; for every code
  from 400 to 599 it succeeds, and the object has the given code as \<open>statusCode\<close> and the
  table's phrase for it as \<open>statusMessage\<close>.
\<close>

theorem HttpError_range:
  "(c < 400 \<or> c > 599 \<longrightarrow> isl (HttpError (Some c) args)) \<and>
   (400 \<le> c \<and> c \<le> 599 \<longrightarrow>
      (\<exists>h. HttpError (Some c) args = Inr h \<and> http_error.statusCode h = c \<and>
           statusMessage h = statusCodes c))"
  by (auto simp: HttpError_def Let_def)

theorem HttpError_range_witness:
  "isl (HttpError (Some 399) []) \<and> isl (HttpError (Some 600) []) \<and>
   (\<exists>h. HttpError (Some 404) [] = Inr h \<and> http_error.statusCode h = 404 \<and>
        statusMessage h = Some ''Not Found'')"
  using HttpError_range [of 399 "[]"] HttpError_range [of 600 "[]"]
    HttpError_range [of 404 "[]"]
  by (simp add: statusCodes_404)

section \<open>Paths of the example directory\<close>

lemma path_env: "urlToPath ''/srv'' (Some ''/srv/www'') ''/.env'' = ''/srv/www/.env''"
  by code_simp

lemma path_git: "urlToPath ''/srv'' (Some ''/srv/www'') ''/.git'' = ''/srv/www/.git''"
  by code_simp

lemma path_docs: "urlToPath ''/srv'' (Some ''/srv/www'') ''/docs'' = ''/srv/www/docs''"
  by code_simp

lemma path_missing:
  "urlToPath ''/srv'' (Some ''/srv/www'') ''/missing.txt'' = ''/srv/www/missing.txt''"
  by code_simp

lemma path_notes:
  "urlToPath ''/srv'' (Some ''/srv/www'') ''/notes.zzz'' = ''/srv/www/notes.zzz''"
  by code_simp

lemma path_git_config:
  "urlToPath ''/srv'' (Some ''/srv/www'') ''/.git/config'' = ''/srv/www/.git/config''"
  by code_simp

lemma path_git_index:
  "urlToPath ''/srv'' (Some ''/srv/www'') ''/.git/'' = ''/srv/www/.git/index.html''"
  by code_simp

lemma path_passwd:
  "urlToPath ''/srv'' (Some ''/srv/www'') ''/../../etc/passwd'' = ''/etc/passwd''"
  by code_simp

lemma resolve_root: "resolve ''/srv'' ''/srv/www'' = ''/srv/www''"
  by code_simp

lemma parse_env: "parse ''/srv/www/.env'' = \<lparr>base = ''.env'', ext = [], name = ''.env''\<rparr>"
  by (simp add: parse_def basename_def Let_def)

lemma parse_git: "parse ''/srv/www/.git'' = \<lparr>base = ''.git'', ext = [], name = ''.git''\<rparr>"
  by (simp add: parse_def basename_def Let_def)

lemma parse_docs: "parse ''/srv/www/docs'' = \<lparr>base = ''docs'', ext = [], name = ''docs''\<rparr>"
  by (simp add: parse_def basename_def Let_def)

lemma parse_missing:
  "parse ''/srv/www/missing.txt'' = \<lparr>base = ''missing.txt'', ext = ''.txt'', name = ''missing''\<rparr>"
  by (simp add: parse_def basename_def Let_def)

lemma parse_notes:
  "parse ''/srv/www/notes.zzz'' = \<lparr>base = ''notes.zzz'', ext = ''.zzz'', name = ''notes''\<rparr>"
  by (simp add: parse_def basename_def Let_def)

lemma parse_git_config:
  "parse ''/srv/www/.git/config'' = \<lparr>base = ''config'', ext = [], name = ''config''\<rparr>"
  by (simp add: parse_def basename_def Let_def)

lemma parse_git_index:
  "parse ''/srv/www/.git/index.html'' =
     \<lparr>base = ''index.html'', ext = ''.html'', name = ''index''\<rparr>"
  by (simp add: parse_def basename_def Let_def)

lemma parse_passwd:
  "parse ''/etc/passwd'' = \<lparr>base = ''passwd'', ext = [], name = ''passwd''\<rparr>"
  by (simp add: parse_def basename_def Let_def)

section \<open>Splitting, normalizing and joining\<close>

lemma split_path_not_Nil: "split_path s \<noteq> []"
  by (induction s) (auto split: list.splits)

lemma split_path_append: "split_path (xs @ CHR ''/'' # ys) = split_path xs @ split_path ys"
proof (induction xs)
  case Nil
  show ?case by simp
next
  case (Cons c xs)
  obtain s ss where s: "split_path xs = s # ss"
    using split_path_not_Nil [of xs] by (cases "split_path xs") auto
  show ?case using Cons s by simp
qed

lemma split_path_segment: "CHR ''/'' \<notin> set s \<Longrightarrow> split_path s = [s]"
  by (induction s) auto

lemma split_path_no_separator: "s \<in> set (split_path x) \<Longrightarrow> CHR ''/'' \<notin> set s"
proof (induction x arbitrary: s)
  case Nil
  then show ?case by simp
next
  case (Cons c cs)
  obtain t ts where t: "split_path cs = t # ts"
    using split_path_not_Nil [of cs] by (cases "split_path cs") auto
  show ?case
  proof (cases "c = CHR ''/''")
    case True
    then show ?thesis using Cons by auto
  next
    case False
    then have "s = c # t \<or> s \<in> set ts" using Cons.prems t by simp
    then show ?thesis using False Cons.IH t by auto
  qed
qed

lemma normalizeString_append:
  "normalizeString res (xs @ ys) = normalizeString (normalizeString res xs) ys"
  by (induction xs arbitrary: res) auto

lemma normalizeString_no_parent:
  "''..'' \<notin> set ys \<Longrightarrow>
   normalizeString res ys = res @ filter (\<lambda>s. s \<noteq> [] \<and> s \<noteq> ''.'') ys"
  by (induction ys arbitrary: res) auto

lemma normalizeString_set:
  "s \<in> set (normalizeString res xs) \<Longrightarrow> s \<in> set res \<or> (s \<in> set xs \<and> s \<noteq> [])"
proof (induction xs arbitrary: res)
  case Nil
  then show ?case by simp
next
  case (Cons x xs)
  consider "x = [] \<or> x = ''.''" | "x = ''..''" | "x \<noteq> []" "x \<noteq> ''.''" "x \<noteq> ''..''"
    by blast
  then show ?case
  proof cases
    case 1
    then have "s \<in> set (normalizeString res xs)" using Cons.prems by auto
    then show ?thesis using Cons.IH [of res] by auto
  next
    case 2
    then have "s \<in> set (normalizeString (butlast res) xs)" using Cons.prems by simp
    then show ?thesis using Cons.IH [of "butlast res"] by (auto dest: in_set_butlastD)
  next
    case 3
    then have "s \<in> set (normalizeString (res @ [x]) xs)" using Cons.prems by simp
    then show ?thesis using Cons.IH [of "res @ [x]"] 3 by auto
  qed
qed

lemma join_path_snoc:
  "join_path (rs @ [s]) = (if rs = [] then s else join_path rs @ CHR ''/'' # s)"
  by (induction rs rule: join_path.induct) auto

lemma split_join_path:
  "rs \<noteq> [] \<Longrightarrow> (\<And>s. s \<in> set rs \<Longrightarrow> CHR ''/'' \<notin> set s) \<Longrightarrow>
   split_path (join_path rs) = rs"
proof (induction rs rule: join_path.induct)
  case 1
  then show ?case by simp
next
  case (2 s)
  then show ?case by (simp add: split_path_segment)
next
  case (3 s t ss)
  then show ?case by (simp add: split_path_append split_path_segment)
qed

section \<open>The base name of a resolved path\<close>

lemma basename_last_segment:
  assumes "s \<noteq> []" and "CHR ''/'' \<notin> set s"
  shows "basename (z @ CHR ''/'' # s) = s"
proof -
  obtain a as where r: "rev s = a # as"
    using assms(1) by (cases "rev s") auto
  have "a \<in> set s"
    using r by (metis list.set_intros(1) set_rev)
  then have a: "a \<noteq> CHR ''/''"
    using assms(2) by auto
  have d: "dropWhile (\<lambda>c. c = CHR ''/'') (rev s @ CHR ''/'' # rev z) = rev s @ CHR ''/'' # rev z"
    using r a by simp
  have "takeWhile (\<lambda>c. c \<noteq> CHR ''/'') (rev s @ CHR ''/'' # rev z) =
        rev s @ takeWhile (\<lambda>c. c \<noteq> CHR ''/'') (CHR ''/'' # rev z)"
    by (rule takeWhile_append2) (use assms(2) in auto)
  then have t: "takeWhile (\<lambda>c. c \<noteq> CHR ''/'') (rev s @ CHR ''/'' # rev z) = rev s"
    by simp
  show ?thesis by (simp add: basename_def d t)
qed

lemma resolve_last_segment:
  assumes "s \<noteq> []" and "CHR ''/'' \<notin> set s" and "s \<noteq> ''.''" and "s \<noteq> ''..''"
  shows "basename (resolve w (x @ CHR ''/'' # s)) = s"
proof -
  define y where "y = (if hd (x @ CHR ''/'' # s) = CHR ''/'' then x else w @ CHR ''/'' # x)"
  define rs where "rs = normalizeString [] (split_path y)"
  have rp: "resolvedPath w (x @ CHR ''/'' # s) = y @ CHR ''/'' # (s @ CHR ''/'' # [])"
    by (simp add: resolvedPath_def y_def)
  have sp: "split_path (y @ CHR ''/'' # (s @ CHR ''/'' # [])) = split_path y @ [s, []]"
    using assms(2) by (simp add: split_path_append split_path_segment)
  have n: "normalizeString [] (split_path y @ [s, []]) = rs @ [s]"
    using assms by (simp add: normalizeString_append rs_def)
  have r: "resolve w (x @ CHR ''/'' # s) = CHR ''/'' # join_path (rs @ [s])"
    unfolding resolve_def rp sp n ..
  show ?thesis
  proof (cases "rs = []")
    case True
    then show ?thesis
      using basename_last_segment [OF assms(1,2), of "[]"] by (simp add: r)
  next
    case False
    then show ?thesis
      using basename_last_segment [OF assms(1,2), of "CHR ''/'' # join_path rs"]
      by (simp add: r join_path_snoc)
  qed
qed

lemma name_starts_like_base:
  "startsWith (name (parse p)) ''.'' = startsWith (basename p) ''.''"
  by (cases "basename p") (auto simp: parse_def Let_def startsWith_def split: nat.splits)

lemma endsWith_separator: "endsWith s ''/'' = (s \<noteq> [] \<and> last s = CHR ''/'')"
proof (cases s rule: rev_cases)
  case Nil
  then show ?thesis by (simp add: endsWith_def)
next
  case (snoc xs x)
  then show ?thesis by (simp add: endsWith_def)
qed

lemma basename_urlToPath:
  assumes "u = pre @ CHR ''/'' # seg" and "CHR ''/'' \<notin> set seg"
      and "\<not> startsWith seg ''.''"
  shows "basename (urlToPath w directory u) = (if seg = [] then ''index.html'' else seg)"
proof -
  define d where "d = (case directory of None \<Rightarrow> ''.'' | Some x \<Rightarrow> x)"
  show ?thesis
  proof (cases "seg = []")
    case True
    have e: "endsWith u ''/''"
      using assms(1) True by (simp add: endsWith_separator)
    have "urlToPath w directory u = resolve w ((d @ pre @ ''/'') @ CHR ''/'' # ''index.html'')"
      using assms(1) True e by (simp add: urlToPath_def d_def)
    moreover have
      "basename (resolve w ((d @ pre @ ''/'') @ CHR ''/'' # ''index.html'')) = ''index.html''"
      by (rule resolve_last_segment) simp_all
    ultimately show ?thesis using True by simp
  next
    case False
    have l: "last seg \<noteq> CHR ''/''"
      using False assms(2) last_in_set by metis
    have e: "\<not> endsWith u ''/''"
      using assms(1) False l by (simp add: endsWith_separator)
    have n: "seg \<noteq> ''.''" "seg \<noteq> ''..''"
      using assms(3) by (auto simp: startsWith_def)
    have "urlToPath w directory u = resolve w ((d @ pre) @ CHR ''/'' # seg)"
      using assms(1) e by (simp add: urlToPath_def d_def)
    moreover have "basename (resolve w ((d @ pre) @ CHR ''/'' # seg)) = seg"
      using False assms(2) n by (rule resolve_last_segment)
    ultimately show ?thesis using False by simp
  qed
qed

section \<open>Static-file resolution\<close>

text \<open>
  C6. For every URL whose candidate path has a base name that starts with a dot,
  resolution fails with HttpError(403), whatever the file system holds at that path: the
  result is the same for every \<open>readFile\<close>, so the check comes before any read.
\<close>

theorem dotfile_forbidden:
  assumes "startsWith (name (parse (urlToPath w directory (url request)))) ''.''"
  shows "getStaticFile \<lparr>cwd = w, readFile = f, contentType = m\<rparr> request directory =
           Inl (HttpErr \<lparr>code = None, message = [], http_error.statusCode = 403,
                         statusMessage = Some ''Forbidden''\<rparr>)"
  using assms
  by (simp add: getStaticFile_def getStaticFile_try_def getStaticFile_catch_def Let_def
      throw_403)

theorem dotfile_forbidden_witness:
  "startsWith (name (parse (urlToPath ''/srv'' (Some ''/srv/www'')
      (url \<lparr>url = ''/.env''\<rparr>)))) ''.'' \<and>
   getStaticFile \<lparr>cwd = ''/srv'', readFile = (\<lambda>p. Inr ''KEY=1''), contentType = (\<lambda>x. None)\<rparr>
       \<lparr>url = ''/.env''\<rparr> (Some ''/srv/www'') =
     Inl (HttpErr \<lparr>code = None, message = [], http_error.statusCode = 403,
                   statusMessage = Some ''Forbidden''\<rparr>) \<and>
   getStaticFile \<lparr>cwd = ''/srv'', readFile = (\<lambda>p. Inl ENOENT), contentType = (\<lambda>x. None)\<rparr>
       \<lparr>url = ''/.env''\<rparr> (Some ''/srv/www'') =
     Inl (HttpErr \<lparr>code = None, message = [], http_error.statusCode = 403,
                   statusMessage = Some ''Forbidden''\<rparr>)"
proof -
  have h: "startsWith (name (parse (urlToPath ''/srv'' (Some ''/srv/www'')
      (url \<lparr>url = ''/.env''\<rparr>)))) ''.''"
    by (simp add: path_env parse_env startsWith_def)
  show ?thesis
    using h dotfile_forbidden [OF h, of "\<lambda>p. Inr ''KEY=1''" "\<lambda>x. None"]
      dotfile_forbidden [OF h, of "\<lambda>p. Inl ENOENT" "\<lambda>x. None"]
    by simp
qed

text \<open>
  C7, as the claim states it, fails: \<open>/.git\<close> maps to an existing directory and does not end
  in a separator, and resolution gives 403, not 302, since the dot check comes first.
\<close>

theorem dot_directory_is_forbidden:
  "\<not> endsWith ''/.git'' ''/'' \<and>
   readFile example_env (urlToPath (cwd example_env) (Some ''/srv/www'') ''/.git'') =
     Inl EISDIR \<and>
   code EISDIR = Some ''EISDIR'' \<and>
   getStaticFile example_env \<lparr>url = ''/.git''\<rparr> (Some ''/srv/www'') =
     Inl (HttpErr \<lparr>code = None, message = [], http_error.statusCode = 403,
                   statusMessage = Some ''Forbidden''\<rparr>)"
  by (simp add: example_env_def path_git parse_git EISDIR_def endsWith_def startsWith_def
      getStaticFile_def getStaticFile_try_def getStaticFile_catch_def Let_def throw_403)

text \<open>
  C7, amended. For every URL that does not end in a separator, whose candidate path has a
  base name that does not start with a dot, and where reading that path fails with
  \<open>EISDIR\<close> (the path is a directory), resolution returns status 302, an empty body and the
  single header \<open>Location\<close> with the request URL followed by \<open>/\<close>.
\<close>

theorem directory_redirect:
  assumes "\<not> endsWith (url request) ''/''"
      and "readFile e (urlToPath (cwd e) directory (url request)) = Inl err"
      and "code err = Some ''EISDIR''"
      and "\<not> startsWith (name (parse (urlToPath (cwd e) directory (url request)))) ''.''"
  shows "getStaticFile e request directory =
           Inr \<lparr>body = [], headers = [(''Location'', HStr (url request @ ''/''))],
                statusCode = 302\<rparr>"
  using assms
  by (simp add: getStaticFile_def getStaticFile_try_def getStaticFile_catch_def Let_def)

theorem directory_redirect_witness:
  "\<not> endsWith (url \<lparr>url = ''/docs''\<rparr>) ''/'' \<and>
   readFile example_env (urlToPath (cwd example_env) (Some ''/srv/www'')
      (url \<lparr>url = ''/docs''\<rparr>)) = Inl EISDIR \<and>
   code EISDIR = Some ''EISDIR'' \<and>
   \<not> startsWith (name (parse (urlToPath (cwd example_env) (Some ''/srv/www'')
      (url \<lparr>url = ''/docs''\<rparr>)))) ''.'' \<and>
   getStaticFile example_env \<lparr>url = ''/docs''\<rparr> (Some ''/srv/www'') =
     Inr \<lparr>body = [], headers = [(''Location'', HStr ''/docs/'')], statusCode = 302\<rparr>"
proof -
  have h1: "\<not> endsWith (url \<lparr>url = ''/docs''\<rparr>) ''/''"
    by (simp add: endsWith_def)
  have h2: "readFile example_env (urlToPath (cwd example_env) (Some ''/srv/www'')
      (url \<lparr>url = ''/docs''\<rparr>)) = Inl EISDIR"
    by (simp add: example_env_def path_docs)
  have h3: "code EISDIR = Some ''EISDIR''"
    by (simp add: EISDIR_def)
  have h4: "\<not> startsWith (name (parse (urlToPath (cwd example_env) (Some ''/srv/www'')
      (url \<lparr>url = ''/docs''\<rparr>)))) ''.''"
    by (simp add: example_env_def path_docs parse_docs startsWith_def)
  show ?thesis
    using h1 h2 h3 h4 directory_redirect [OF h1 h2 h3 h4] by simp
qed

text \<open>
  C10. The dot check looks at the base name of the resolved path only. Take a URL that ends
  in \<open>/\<close> followed by a final segment that does not start with a dot (the segment is
  empty when the URL ends in \<open>/\<close>), whatever the segments before it are. When the file at
  the candidate path can be read, resolution returns it with status 200: a file below a
  dot-named directory is served, and so is the \<open>index.html\<close> of a dot-named directory.
\<close>

theorem dot_check_base_name_only:
  assumes "url request = pre @ CHR ''/'' # seg" and "CHR ''/'' \<notin> set seg"
      and "\<not> startsWith seg ''.''"
      and "readFile e (urlToPath (cwd e) directory (url request)) = Inr contents"
  shows "getStaticFile e request directory =
           Inr \<lparr>body = contents,
                headers = [(''Content-Type'', mime_header (contentType e
                   (ext (parse (urlToPath (cwd e) directory (url request))))))],
                statusCode = 200\<rparr>"
proof -
  have b: "basename (urlToPath (cwd e) directory (url request)) =
             (if seg = [] then ''index.html'' else seg)"
    using assms(1-3) by (rule basename_urlToPath)
  have "\<not> startsWith (basename (urlToPath (cwd e) directory (url request))) ''.''"
    using assms(3) by (simp add: b startsWith_def)
  then have "\<not> startsWith (name (parse (urlToPath (cwd e) directory (url request)))) ''.''"
    by (simp add: name_starts_like_base)
  then show ?thesis
    using assms(4) by (simp add: getStaticFile_def getStaticFile_try_def Let_def)
qed

theorem dot_check_base_name_only_witness:
  "getStaticFile example_env \<lparr>url = ''/.git/config''\<rparr> (Some ''/srv/www'') =
     Inr \<lparr>body = ''[core]'', headers = [(''Content-Type'', HFalse)], statusCode = 200\<rparr> \<and>
   getStaticFile example_env \<lparr>url = ''/.git/''\<rparr> (Some ''/srv/www'') =
     Inr \<lparr>body = ''<html>'',
          headers = [(''Content-Type'', HStr ''text/html; charset=utf-8'')],
          statusCode = 200\<rparr>"
proof -
  have a1: "url \<lparr>url = ''/.git/config''\<rparr> = ''/.git'' @ CHR ''/'' # ''config''"
    by simp
  have a2: "CHR ''/'' \<notin> set ''config''"
    by simp
  have a3: "\<not> startsWith ''config'' ''.''"
    by (simp add: startsWith_def)
  have a4: "readFile example_env (urlToPath (cwd example_env) (Some ''/srv/www'')
              (url \<lparr>url = ''/.git/config''\<rparr>)) = Inr ''[core]''"
    by (simp add: example_env_def path_git_config)
  have b1: "url \<lparr>url = ''/.git/''\<rparr> = ''/.git'' @ CHR ''/'' # []"
    by simp
  have b2: "CHR ''/'' \<notin> set []"
    by simp
  have b3: "\<not> startsWith [] ''.''"
    by (simp add: startsWith_def)
  have b4: "readFile example_env (urlToPath (cwd example_env) (Some ''/srv/www'')
              (url \<lparr>url = ''/.git/''\<rparr>)) = Inr ''<html>''"
    by (simp add: example_env_def path_git_index)
  show ?thesis
    using dot_check_base_name_only [OF a1 a2 a3 a4] dot_check_base_name_only [OF b1 b2 b3 b4]
    by (simp add: example_env_def path_git_config path_git_index parse_git_config
        parse_git_index mime_header_def)
qed

lemma getStaticFile_notes:
  "getStaticFile example_env \<lparr>url = ''/notes.zzz''\<rparr> (Some ''/srv/www'') =
     Inr \<lparr>body = ''notes'', headers = [(''Content-Type'', HFalse)], statusCode = 200\<rparr>"
  by (simp add: example_env_def path_notes parse_notes getStaticFile_def
      getStaticFile_try_def Let_def startsWith_def mime_header_def)

text \<open>
  C9 at a file with an extension the MIME collaborator does not know: reading
  \<open>/notes.zzz\<close> succeeds, the unknown extension is no error, and the headers object of the
  200 result does have the key \<open>Content-Type\<close>, with the collaborator's \<open>false\<close> as its
  value; the static handler hands it to \<open>writeHead\<close>, so the response carries the header.
\<close>

theorem unknown_extension_sends_header:
  "contentType example_env ''.zzz'' = None \<and>
   getStaticFile example_env \<lparr>url = ''/notes.zzz''\<rparr> (Some ''/srv/www'') =
     Inr \<lparr>body = ''notes'', headers = [(''Content-Type'', HFalse)], statusCode = 200\<rparr> \<and>
   createRequestListener [createStaticHandler example_env (Some ''/srv/www'')]
       \<lparr>url = ''/notes.zzz''\<rparr> (Unsent 200) =
     \<lparr>final = Ended 200 [(''Content-Type'', HFalse)] ''notes'', escaped = None,
      invoked = 1\<rparr>"
  by (simp add: getStaticFile_notes createStaticHandler_def createRequestListener_def
      listener_try_def) (simp add: example_env_def)

lemma passwd_outside: "\<not> inside_directory ''/srv/www'' ''/etc/passwd''"
  by (simp add: inside_directory_def path_segments_def)

text \<open>
  C1 at a URL with \<open>..\<close> segments: with \<open>/srv/www\<close> as the directory, the URL
  \<open>/../../etc/passwd\<close> resolves to \<open>/etc/passwd\<close>, which is not inside the directory,
  and resolution returns that file's contents with status 200.
\<close>

theorem traversal_reads_outside_root:
  "resolve (cwd example_env) ''/srv/www'' = ''/srv/www'' \<and>
   urlToPath (cwd example_env) (Some ''/srv/www'') ''/../../etc/passwd'' = ''/etc/passwd'' \<and>
   \<not> inside_directory ''/srv/www'' ''/etc/passwd'' \<and>
   getStaticFile example_env \<lparr>url = ''/../../etc/passwd''\<rparr> (Some ''/srv/www'') =
     Inr \<lparr>body = ''root:x:0:0:'', headers = [(''Content-Type'', HFalse)],
          statusCode = 200\<rparr>"
  by (simp add: example_env_def path_passwd parse_passwd resolve_root passwd_outside
      getStaticFile_def getStaticFile_try_def Let_def startsWith_def mime_header_def)

text \<open>
  What does hold of the path that is read: for a directory that is not the empty string and
  a URL that starts with \<open>/\<close> and has no \<open>..\<close> segment, the candidate path is inside the
  resolved directory.
\<close>

lemma path_segments_join:
  assumes "\<And>s. s \<in> set rs \<Longrightarrow> CHR ''/'' \<notin> set s \<and> s \<noteq> []"
  shows "path_segments (CHR ''/'' # join_path rs) = rs"
proof (cases "rs = []")
  case True
  then show ?thesis by (simp add: path_segments_def)
next
  case False
  have "split_path (join_path rs) = rs"
    using False assms by (intro split_join_path) auto
  moreover have "filter (\<lambda>s. s \<noteq> []) rs = rs"
    using assms by (intro filter_True) auto
  ultimately show ?thesis by (simp add: path_segments_def)
qed

lemma path_segments_resolve:
  "path_segments (resolve w p) = normalizeString [] (split_path (resolvedPath w p))"
proof -
  have "\<And>s. s \<in> set (normalizeString [] (split_path (resolvedPath w p))) \<Longrightarrow>
          CHR ''/'' \<notin> set s \<and> s \<noteq> []"
    using normalizeString_set split_path_no_separator by fastforce
  then have
    "path_segments (CHR ''/'' # join_path (normalizeString [] (split_path (resolvedPath w p))))
       = normalizeString [] (split_path (resolvedPath w p))"
    by (rule path_segments_join)
  then show ?thesis by (simp add: resolve_def)
qed

lemma resolve_below:
  assumes "d \<noteq> []" and "''..'' \<notin> set (split_path (CHR ''/'' # x))"
  shows "inside_directory (resolve w d) (resolve w (d @ CHR ''/'' # x))"
proof -
  define y where "y = (if hd d = CHR ''/'' then d else w @ CHR ''/'' # d)"
  have i1: "resolvedPath w d = y @ CHR ''/'' # []"
    using assms(1) by (simp add: resolvedPath_def y_def)
  have i2: "resolvedPath w (d @ CHR ''/'' # x) = y @ CHR ''/'' # (x @ CHR ''/'' # [])"
    using assms(1) by (simp add: resolvedPath_def y_def)
  have s1: "normalizeString [] (split_path (resolvedPath w d)) =
            normalizeString [] (split_path y)"
    by (simp add: i1 split_path_append normalizeString_append)
  have np: "''..'' \<notin> set (split_path (x @ CHR ''/'' # []))"
    using assms(2) by (simp add: split_path_append)
  have s2: "normalizeString [] (split_path (resolvedPath w (d @ CHR ''/'' # x))) =
            normalizeString [] (split_path y) @
              filter (\<lambda>s. s \<noteq> [] \<and> s \<noteq> ''.'') (split_path (x @ CHR ''/'' # []))"
    unfolding i2 split_path_append [of y] normalizeString_append
    using np by (rule normalizeString_no_parent)
  show ?thesis
    by (simp add: inside_directory_def path_segments_resolve s1 s2)
qed

lemma urlToPath_inside_directory:
  assumes "d \<noteq> []" and "u = CHR ''/'' # x" and "''..'' \<notin> set (split_path u)"
  shows "inside_directory (resolve w d) (urlToPath w (Some d) u)"
proof (cases "endsWith u ''/''")
  case True
  have "''..'' \<notin> set (split_path (CHR ''/'' # (x @ ''/index.html'')))"
    using assms(2,3) split_path_append [of u "''index.html''"] by simp
  then have "inside_directory (resolve w d) (resolve w (d @ CHR ''/'' # (x @ ''/index.html'')))"
    using assms(1) by (intro resolve_below)
  then show ?thesis using True assms(2) by (simp add: urlToPath_def)
next
  case False
  have "inside_directory (resolve w d) (resolve w (d @ CHR ''/'' # x))"
    using assms by (intro resolve_below) auto
  then show ?thesis using False assms(2) by (simp add: urlToPath_def)
qed

section \<open>The handler chain\<close>

text \<open>
  C2 at a handler that finalizes the response and then throws: the render step calls
  \<open>writeHead\<close> on a response whose headers are sent, \<open>writeHead\<close> throws, and nothing
  catches that exception: it escapes the listener.
\<close>

theorem render_failure_escapes:
  "createRequestListener [end_then_throw] \<lparr>url = ''/''\<rparr> (Unsent 200) =
     \<lparr>final = Ended 200 [] ''done'', escaped = Some ERR_HTTP_HEADERS_SENT, invoked = 1\<rparr>"
  by (simp add: createRequestListener_def listener_try_def end_then_throw_def classify_def
      render_def throw_500)

text \<open>
  C3. Run the executor on handlers A, B and any handlers after them, where A calls \<open>next\<close>
  and leaves the (not finalized) response as it is, and B leaves a finalized response,
  whether it calls \<open>next\<close> or not. The final response is the one B left, no exception
  escapes, and exactly two handlers are invoked: none after B.
\<close>

theorem chain_continue_then_respond:
  assumes "A request response = Returned True response"
      and "\<not> writableEnded response"
      and "B request response = Returned nb rB"
      and "writableEnded rB"
  shows "createRequestListener (A # B # rest) request response =
           \<lparr>final = rB, escaped = None, invoked = 2\<rparr>"
  using assms by (simp add: createRequestListener_def listener_try_def)

theorem chain_continue_then_respond_witness:
  "continue_only \<lparr>url = ''/hello-world''\<rparr> (Unsent 200) = Returned True (Unsent 200) \<and>
   \<not> writableEnded (Unsent 200) \<and>
   myCustomHandler \<lparr>url = ''/hello-world''\<rparr> (Unsent 200) =
     Returned True (Ended 200 [(''Content-Type'', HStr ''text/plain'')] ''Hello, world!'') \<and>
   writableEnded (Ended 200 [(''Content-Type'', HStr ''text/plain'')] ''Hello, world!'') \<and>
   createRequestListener [continue_only, myCustomHandler, throws]
       \<lparr>url = ''/hello-world''\<rparr> (Unsent 200) =
     \<lparr>final = Ended 200 [(''Content-Type'', HStr ''text/plain'')] ''Hello, world!'',
      escaped = None, invoked = 2\<rparr>"
proof -
  have a: "continue_only \<lparr>url = ''/hello-world''\<rparr> (Unsent 200) = Returned True (Unsent 200)"
    by (simp add: continue_only_def)
  have b: "\<not> writableEnded (Unsent 200)"
    by simp
  have c: "myCustomHandler \<lparr>url = ''/hello-world''\<rparr> (Unsent 200) =
     Returned True (Ended 200 [(''Content-Type'', HStr ''text/plain'')] ''Hello, world!'')"
    by (simp add: myCustomHandler_def)
  have d: "writableEnded (Ended 200 [(''Content-Type'', HStr ''text/plain'')] ''Hello, world!'')"
    by simp
  show ?thesis
    using a b c d
      chain_continue_then_respond [where A = continue_only and B = myCustomHandler
        and rest = "[throws]", OF a b c d]
    by simp
qed

text \<open>
  C4, as the claim states it, fails: a handler that writes the head with status 200, does
  not finalize and calls \<open>next\<close> leaves the response not finalized after the loop, and the
  response stays at status 200 with no body: it is not the 404 response.
\<close>

theorem head_sent_is_not_404:
  "handlers_loop [head_then_continue] \<lparr>url = ''/''\<rparr> (Unsent 200) =
     (1, Completed (HeadSent 200 [] [])) \<and>
   \<not> writableEnded (HeadSent 200 [] []) \<and>
   final (createRequestListener [head_then_continue] \<lparr>url = ''/''\<rparr> (Unsent 200)) =
     HeadSent 200 [] []"
  by (simp add: createRequestListener_def listener_try_def head_then_continue_def
      classify_def render_def throw_404)

text \<open>
  C4, amended. For every request, if the response is not finalized after the handler loop
  (the handlers are exhausted, or one of them did not call \<open>next\<close>), the executor
  synthesizes HttpError(404); and if no handler has sent the head of the response, the
  response is finalized with status 404, the single header \<open>Content-Type: text/plain\<close> and
  the body \<open>Not Found\<close>, and no exception escapes.
\<close>

theorem not_finalized_404:
  assumes "handlers_loop handlers request response = (n, Completed r)"
      and "\<not> writableEnded r"
  shows "listener_try handlers request response =
           (n, Some (HttpErr \<lparr>code = None, message = [], http_error.statusCode = 404,
                              statusMessage = Some ''Not Found''\<rparr>), r) \<and>
         (\<not> headersSent r \<longrightarrow>
            createRequestListener handlers request response =
              \<lparr>final = Ended 404 [(''Content-Type'', HStr ''text/plain'')] ''Not Found'',
               escaped = None, invoked = n\<rparr>)"
  using assms
  by (cases r) (simp_all add: createRequestListener_def listener_try_def classify_def
      render_def throw_404)

lemma static_handler_missing:
  "createStaticHandler example_env (Some ''/srv/www'') \<lparr>url = ''/missing.txt''\<rparr> (Unsent 200) =
     Returned True (Unsent 200)"
  by (simp add: createStaticHandler_def getStaticFile_def getStaticFile_try_def
      getStaticFile_catch_def Let_def example_env_def path_missing parse_missing
      startsWith_def ENOENT_def throw_404)

theorem not_finalized_404_witness:
  "handlers_loop [idle] \<lparr>url = ''/missing.txt''\<rparr> (Unsent 200) =
     (1, Completed (Unsent 200)) \<and>
   handlers_loop [continue_only, createStaticHandler example_env (Some ''/srv/www'')]
       \<lparr>url = ''/missing.txt''\<rparr> (Unsent 200) = (2, Completed (Unsent 200)) \<and>
   \<not> writableEnded (Unsent 200) \<and> \<not> headersSent (Unsent 200) \<and>
   createRequestListener [idle] \<lparr>url = ''/missing.txt''\<rparr> (Unsent 200) =
     \<lparr>final = Ended 404 [(''Content-Type'', HStr ''text/plain'')] ''Not Found'',
      escaped = None, invoked = 1\<rparr> \<and>
   createRequestListener [continue_only, createStaticHandler example_env (Some ''/srv/www'')]
       \<lparr>url = ''/missing.txt''\<rparr> (Unsent 200) =
     \<lparr>final = Ended 404 [(''Content-Type'', HStr ''text/plain'')] ''Not Found'',
      escaped = None, invoked = 2\<rparr>"
proof -
  have a: "handlers_loop [idle] \<lparr>url = ''/missing.txt''\<rparr> (Unsent 200) =
     (1, Completed (Unsent 200))"
    by (simp add: idle_def)
  have b: "handlers_loop [continue_only, createStaticHandler example_env (Some ''/srv/www'')]
       \<lparr>url = ''/missing.txt''\<rparr> (Unsent 200) = (2, Completed (Unsent 200))"
    by (simp add: continue_only_def static_handler_missing)
  have c: "\<not> writableEnded (Unsent 200)" and d: "\<not> headersSent (Unsent 200)"
    by simp_all
  show ?thesis
    using a b c d not_finalized_404 [OF a c] not_finalized_404 [OF b c] by simp
qed

text \<open>
  C5, as the claim states it, fails: a handler that writes the head with status 200 and
  then throws a plain error leaves a response with status 200 and no body, not the 500
  response.
\<close>

theorem head_sent_is_not_500:
  "handlers_loop [head_then_throw] \<lparr>url = ''/''\<rparr> (Unsent 200) =
     (1, Raised (OtherErr boom) (HeadSent 200 [] [])) \<and>
   final (createRequestListener [head_then_throw] \<lparr>url = ''/''\<rparr> (Unsent 200)) =
     HeadSent 200 [] []"
  by (simp add: createRequestListener_def listener_try_def head_then_throw_def
      classify_def render_def throw_500)

text \<open>
  C5, amended. For every request during which a handler raises a value that is not an
  HttpError, the executor substitutes HttpError(500). If the head of the response was not
  sent when the handler raised, the response is finalized with status 500, the single
  header \<open>Content-Type: text/plain\<close> and the body \<open>Internal Server Error\<close>, and no exception
  escapes. In every case the final response is either that 500 response or the response
  as the handlers left it: the executor writes nothing of the raised value.
\<close>

theorem unexpected_error_500:
  assumes "handlers_loop handlers request response = (n, Raised (OtherErr raw) r)"
  shows "classify (OtherErr raw) =
           HttpErr \<lparr>code = None, message = [], http_error.statusCode = 500,
                    statusMessage = Some ''Internal Server Error''\<rparr> \<and>
         (\<not> headersSent r \<longrightarrow>
            createRequestListener handlers request response =
              \<lparr>final = Ended 500 [(''Content-Type'', HStr ''text/plain'')]
                 ''Internal Server Error'',
               escaped = None, invoked = n\<rparr>) \<and>
         (final (createRequestListener handlers request response) = r \<or>
          final (createRequestListener handlers request response) =
            Ended 500 [(''Content-Type'', HStr ''text/plain'')] ''Internal Server Error'')"
  using assms
  by (cases r) (simp_all add: createRequestListener_def listener_try_def classify_def
      render_def throw_500)

theorem unexpected_error_500_witness:
  "handlers_loop [continue_only, throws, myCustomHandler] \<lparr>url = ''/''\<rparr> (Unsent 200) =
     (2, Raised (OtherErr boom) (Unsent 200)) \<and>
   \<not> headersSent (Unsent 200) \<and>
   createRequestListener [continue_only, throws, myCustomHandler] \<lparr>url = ''/''\<rparr>
       (Unsent 200) =
     \<lparr>final = Ended 500 [(''Content-Type'', HStr ''text/plain'')] ''Internal Server Error'',
      escaped = None, invoked = 2\<rparr>"
proof -
  have a: "handlers_loop [continue_only, throws, myCustomHandler] \<lparr>url = ''/''\<rparr>
       (Unsent 200) = (2, Raised (OtherErr boom) (Unsent 200))"
    by (simp add: continue_only_def throws_def)
  have b: "\<not> headersSent (Unsent 200)"
    by simp
  show ?thesis
    using a b unexpected_error_500 [OF a] by simp
qed

end
